theory Spec2Isabelle
  imports Main "HOL-Library.Sublist" "HOL-Library.Stream" "HOL-Library.Monad_Syntax"
begin

section \<open>The Todoist client of the dashboard (src/services/todoist.ts)\<close>

subsection \<open>Values, errors and the browser environment\<close>

text \<open>
  Decoded JSON (the \<^verbatim>\<open>any\<close> that \<^verbatim>\<open>response.json()\<close> resolves to). The literal
  \<^verbatim>\<open>{}\<close> of \<^verbatim>\<open>getData\<close> is \<open>JObject []\<close>.
\<close>

datatype json =
    JNull
  | JBool bool
  | JNumber int
  | JString string
  | JArray "json list"
  | JObject "(string \<times> json) list"

text \<open>
  A thrown JavaScript error, by constructor and message. An \<^verbatim>\<open>async\<close> function that
  throws rejects its promise with the error: both are the \<open>Inl\<close> of a result.
\<close>

datatype error =
    Error string
  | TypeError string
  | SyntaxError string
  | RangeError string

type_synonym 'a result = "error + 'a"

datatype http_method = GET | POST

text \<open>
  The arguments of one \<^verbatim>\<open>fetch\<close> call. A call without \<^verbatim>\<open>method\<close> is a GET. The body
  is the value handed to \<^verbatim>\<open>JSON.stringify\<close>; \<^verbatim>\<open>JSON.stringify(undefined)\<close> is
  \<^verbatim>\<open>undefined\<close>, a request without body, here \<open>None\<close>.
\<close>

record request =
  url :: string
  http_method :: http_method
  headers :: "(string \<times> string) list"
  body :: "json option"

text \<open>
  A \<^verbatim>\<open>Response\<close>: its status, its status text, and what its \<^verbatim>\<open>json()\<close> method
  settles to (the decoded body, or the \<^verbatim>\<open>SyntaxError\<close> of a body that is not JSON,
  as the empty body of a 204 is).
\<close>

record response =
  status :: int
  statusText :: string
  json_body :: "json result"

text \<open>
  The world a call runs in: the settings store (\<^verbatim>\<open>localStorage\<close>, where
  \<^verbatim>\<open>getItem\<close> of an unset key is \<^verbatim>\<open>null\<close>, here \<open>None\<close>), the remote end (what
  \<^verbatim>\<open>fetch\<close> settles to for a request: a response, or the rejection of a failed
  transport), and the log of the \<^verbatim>\<open>fetch\<close> calls issued so far.
\<close>

record world =
  localStorage :: "string \<rightharpoonup> string"
  remote :: "request \<Rightarrow> response result"
  fetched :: "request list"

text \<open>
  The key names of \<^verbatim>\<open>localStorageKeys\<close> (src/state/model is not among the sources:
  the names are a parameter of every operation).
\<close>

record localStorageKeys =
  todoistApiKey :: string
  todoistFilter :: string

definition BASE_URL :: string where
  "BASE_URL = ''https://api.todoist.com/rest/v2''"

text \<open>JavaScript truthiness of a \<^verbatim>\<open>string | null\<close>: \<^verbatim>\<open>null\<close> and \<^verbatim>\<open>""\<close> are falsy.\<close>

fun truthy :: "string option \<Rightarrow> bool" where
  "truthy None = False"
| "truthy (Some s) = (s \<noteq> [])"

subsection \<open>The operations\<close>

definition getApiKey :: "localStorageKeys \<Rightarrow> world \<Rightarrow> string result" where
  "getApiKey keys w =
     (case localStorage w (todoistApiKey keys) of
        None \<Rightarrow> Inl (Error ''No Todoist API key.'')
      | Some apiKey \<Rightarrow>
          if apiKey = [] then Inl (Error ''No Todoist API key.'') else Inr apiKey)"

text \<open>
  \<^verbatim>\<open>fetch(input, init)\<close>: the call is logged, and settles to what the remote end
  answers.
\<close>

definition fetch :: "world \<Rightarrow> request \<Rightarrow> response result \<times> world" where
  "fetch w req = (remote w req, w\<lparr>fetched := fetched w @ [req]\<rparr>)"

text \<open>
  \<^verbatim>\<open>getData\<close>. The arguments of \<^verbatim>\<open>fetch\<close> are evaluated before the call: the URL
  template first, then the \<^verbatim>\<open>init\<close> object, whose \<^verbatim>\<open>Authorization\<close> header calls
  \<^verbatim>\<open>getApiKey()\<close>. Its throw leaves \<^verbatim>\<open>fetch\<close> uncalled.
\<close>

definition getData :: "localStorageKeys \<Rightarrow> world \<Rightarrow> string \<Rightarrow> json result \<times> world" where
  "getData keys w endpoint =
     (let input = BASE_URL @ ''/'' @ endpoint @ ''?'' in
      case getApiKey keys w of
        Inl e \<Rightarrow> (Inl e, w)
      | Inr apiKey \<Rightarrow>
          (case fetch w \<lparr>url = input, http_method = GET,
                          headers = [(''Content-Type'', ''application/json''),
                                     (''Authorization'', ''Bearer '' @ apiKey)],
                          body = None\<rparr> of
             (Inl e, w') \<Rightarrow> (Inl e, w')
           | (Inr response, w') \<Rightarrow>
               if status response = 200 then (json_body response, w')
               else if status response = 204 then (Inr (JObject []), w')
               else (Inl (Error (statusText response)), w')))"

definition postData ::
  "localStorageKeys \<Rightarrow> world \<Rightarrow> string \<Rightarrow> json option \<Rightarrow> json result \<times> world" where
  "postData keys w endpoint content =
     (let input = BASE_URL @ ''/'' @ endpoint @ ''?'' in
      case getApiKey keys w of
        Inl e \<Rightarrow> (Inl e, w)
      | Inr apiKey \<Rightarrow>
          (case fetch w \<lparr>url = input, http_method = POST,
                          headers = [(''Content-Type'', ''application/json''),
                                     (''Authorization'', ''Bearer '' @ apiKey)],
                          body = content\<rparr> of
             (Inl e, w') \<Rightarrow> (Inl e, w')
           | (Inr response, w') \<Rightarrow>
               if status response = 200 \<or> status response = 204
               then (json_body response, w')
               else (Inl (Error (statusText response)), w')))"

definition default_filter :: string where
  "default_filter = ''(today | overdue) & !assigned to: others''"

text \<open>
  \<^verbatim>\<open>a || b\<close> on a \<^verbatim>\<open>string | null\<close>: \<^verbatim>\<open>b\<close> when \<^verbatim>\<open>a\<close> is \<^verbatim>\<open>null\<close> or the empty
  string.
\<close>

fun or_else :: "string option \<Rightarrow> string \<Rightarrow> string" where
  "or_else None d = d"
| "or_else (Some s) d = (if s = [] then d else s)"

definition getTasks :: "localStorageKeys \<Rightarrow> world \<Rightarrow> json result \<times> world" where
  "getTasks keys w =
     (let filter_str = or_else (localStorage w (todoistFilter keys)) default_filter
      in getData keys w (''tasks?filter='' @ filter_str))"

definition getProjects :: "localStorageKeys \<Rightarrow> world \<Rightarrow> json result \<times> world" where
  "getProjects keys w = getData keys w ''projects''"

definition closeTask :: "localStorageKeys \<Rightarrow> world \<Rightarrow> string \<Rightarrow> json result \<times> world" where
  "closeTask keys w taskId = postData keys w (''tasks/'' @ taskId @ ''/close'') None"

subsection \<open>Every exported operation\<close>

text \<open>The three exported operations of the client, to quantify over them.\<close>

datatype operation = GetTasks | GetProjects | CloseTask string

fun run :: "localStorageKeys \<Rightarrow> world \<Rightarrow> operation \<Rightarrow> json result \<times> world" where
  "run keys w GetTasks = getTasks keys w"
| "run keys w GetProjects = getProjects keys w"
| "run keys w (CloseTask taskId) = closeTask keys w taskId"

section \<open>The date formatter (relativeDateTime of src/services/todoist.ts)\<close>

subsection \<open>Dates, the clock and the date-fns functions\<close>

text \<open>
  A JavaScript \<^verbatim>\<open>Date\<close>: its time value in milliseconds since the epoch, or the
  Invalid Date (time value \<^verbatim>\<open>NaN\<close>). Either is an object, hence truthy.
\<close>

datatype jsdate = Date int | Invalid_Date

record TodoistDue =
  due_string :: string
  date :: string
  is_recurring :: bool
  datetime :: "string option"
  timezone :: "string option"

text \<open>
  The ambient clock: the readings that successive \<^verbatim>\<open>new Date()\<close> will return, in
  milliseconds since the epoch.
\<close>

type_synonym clock = "int stream"

definition new_Date :: "clock \<Rightarrow> jsdate \<times> clock" where
  "new_Date c = (Date (shd c), stl c)"

text \<open>
  The two functions imported from the package date-fns, which is not part of the
  repository: \<^verbatim>\<open>parse(dateString, formatString, referenceDate)\<close>, which returns a
  \<^verbatim>\<open>Date\<close> (the Invalid Date when the string does not match), and
  \<^verbatim>\<open>formatRelative(date, baseDate)\<close>, which returns a string or throws. They are a
  parameter of \<^verbatim>\<open>relativeDateTime\<close>.
\<close>

record date_fns =
  parse :: "string \<Rightarrow> string \<Rightarrow> jsdate \<Rightarrow> jsdate"
  formatRelative :: "jsdate \<Rightarrow> jsdate \<Rightarrow> string result"

subsection \<open>String.prototype.split\<close>

text \<open>
  \<^verbatim>\<open>s.split(sep)\<close> for a string separator: the pieces of \<^verbatim>\<open>s\<close> between the
  occurrences of \<^verbatim>\<open>sep\<close>, found from left to right without overlap. With the empty
  separator the pieces are the characters of \<^verbatim>\<open>s\<close>.
\<close>

fun js_split_from :: "string \<Rightarrow> string \<Rightarrow> string \<Rightarrow> string list" where
  "js_split_from sep piece [] = [piece]"
| "js_split_from sep piece (c # cs) =
     (if sep \<noteq> [] \<and> prefix sep (c # cs)
      then piece # js_split_from sep [] (drop (length sep) (c # cs))
      else js_split_from sep (piece @ [c]) cs)"

definition js_split :: "string \<Rightarrow> string \<Rightarrow> string list" where
  "js_split sep s = (if sep = [] then map (\<lambda>c. [c]) s else js_split_from sep [] s)"

subsection \<open>Removing everything from the first occurrence of a substring\<close>

text \<open>
  The specification's wording of \<^verbatim>\<open>.split(" at")[0]\<close>: the string with everything from
  the first occurrence of the separator onward removed. The first occurrence is the least
  position at which the separator starts.
\<close>

definition first_occurrence :: "string \<Rightarrow> string \<Rightarrow> nat option" where
  "first_occurrence sep s = find (\<lambda>i. prefix sep (drop i s)) [0..<Suc (length s)]"

definition remove_from_first :: "string \<Rightarrow> string \<Rightarrow> string" where
  "remove_from_first sep s =
     (case first_occurrence sep s of None \<Rightarrow> s | Some i \<Rightarrow> take i s)"

subsection \<open>relativeDateTime\<close>

definition datetime_layout :: string where
  "datetime_layout = ''yyyy-MM-dd'T'HH:mm:ssXXX''"

definition date_layout :: string where
  "date_layout = ''yyyy-MM-dd''"

text \<open>
  \<^verbatim>\<open>relativeDateTime\<close>. \<^verbatim>\<open>dueDateTime\<close> is \<^verbatim>\<open>undefined\<close> (here \<open>None\<close>) exactly when
  \<^verbatim>\<open>due.datetime\<close> is falsy (absent or empty); otherwise it is the \<^verbatim>\<open>Date\<close> that
  \<^verbatim>\<open>parse\<close> returned, and \<^verbatim>\<open>if (dueDateTime)\<close> takes the first branch, whether the
  date is valid or not. The same holds for \<^verbatim>\<open>dueDate\<close>. Each \<^verbatim>\<open>new Date()\<close> reads
  the clock. An error thrown by \<^verbatim>\<open>formatRelative\<close> is not caught.
\<close>

definition relativeDateTime ::
  "date_fns \<Rightarrow> clock \<Rightarrow> TodoistDue \<Rightarrow> string result \<times> clock" where
  "relativeDateTime lib c due =
     (let (dueDateTime, c1) =
            (case datetime due of
               None \<Rightarrow> (None, c)
             | Some s \<Rightarrow>
                 if s = [] then (None, c)
                 else (let (now, c') = new_Date c
                       in (Some (parse lib s datetime_layout now), c')))
      in case dueDateTime of
           Some d \<Rightarrow>
             (let (now, c2) = new_Date c1 in (formatRelative lib d now, c2))
         | None \<Rightarrow>
             (let (dueDate, c2) =
                    (if date due = [] then (None, c1)
                     else (let (now, c') = new_Date c1
                           in (Some (parse lib (date due) date_layout now), c')))
              in case dueDate of
                   Some d \<Rightarrow>
                     (let (now, c3) = new_Date c2
                      in (case formatRelative lib d now of
                            Inl e \<Rightarrow> Inl e
                          | Inr r \<Rightarrow> Inr (hd (js_split '' at'' r)), c3))
                 | None \<Rightarrow> (Inr [], c2)))"

subsection \<open>A reference model of the two date-fns functions\<close>

text \<open>
  To run \<^verbatim>\<open>relativeDateTime\<close> on concrete descriptors, the parameter is instantiated
  with a model of date-fns for the two layouts that \<^verbatim>\<open>relativeDateTime\<close> passes, the
  default locale (en-US) and a host whose time zone is UTC. \<^verbatim>\<open>parse\<close> reads each
  numeric field as at most as many digits as its pattern has letters, checks the ranges
  of the fields and that nothing but white space is left over, and returns the Invalid
  Date otherwise;
  a date without time is midnight. \<^verbatim>\<open>formatRelative\<close> throws a \<^verbatim>\<open>RangeError\<close> on an
  Invalid Date and otherwise chooses its phrase by the difference in calendar days.
\<close>

text \<open>Reading: a run of at most \<open>hi\<close> and at least \<open>lo\<close> decimal digits, and a literal.\<close>

definition is_digit :: "char \<Rightarrow> bool" where
  "is_digit c = (48 \<le> (of_char c :: nat) \<and> (of_char c :: nat) \<le> 57)"

fun take_digits :: "nat \<Rightarrow> string \<Rightarrow> string \<times> string" where
  "take_digits 0 s = ([], s)"
| "take_digits (Suc n) [] = ([], [])"
| "take_digits (Suc n) (c # cs) =
     (if is_digit c then (let (ds, r) = take_digits n cs in (c # ds, r)) else ([], c # cs))"

definition number_of :: "string \<Rightarrow> int" where
  "number_of ds = fold (\<lambda>c v. 10 * v + (of_char c - 48)) ds 0"

definition numeric :: "nat \<Rightarrow> nat \<Rightarrow> string \<Rightarrow> (int \<times> string) option" where
  "numeric lo hi s =
     (let (ds, r) = take_digits hi s
      in if lo \<le> length ds then Some (number_of ds, r) else None)"

definition literal :: "string \<Rightarrow> string \<Rightarrow> string option" where
  "literal l s = (if prefix l s then Some (drop (length l) s) else None)"

text \<open>
  The proleptic Gregorian calendar: the number of days from 1970-01-01 to a civil date,
  and back.
\<close>

definition leap_year :: "int \<Rightarrow> bool" where
  "leap_year y = (y mod 400 = 0 \<or> (y mod 4 = 0 \<and> y mod 100 \<noteq> 0))"

definition days_in_month :: "int \<Rightarrow> int \<Rightarrow> int" where
  "days_in_month y m =
     (if m = 2 then (if leap_year y then 29 else 28)
      else if m = 4 \<or> m = 6 \<or> m = 9 \<or> m = 11 then 30 else 31)"

definition days_from_civil :: "int \<Rightarrow> int \<Rightarrow> int \<Rightarrow> int" where
  "days_from_civil y m d =
     (let y' = (if m \<le> 2 then y - 1 else y);
          era = y' div 400;
          yoe = y' - era * 400;
          doy = (153 * (if 2 < m then m - 3 else m + 9) + 2) div 5 + d - 1;
          doe = yoe * 365 + yoe div 4 - yoe div 100 + doy
      in era * 146097 + doe - 719468)"

definition civil_from_days :: "int \<Rightarrow> int \<times> int \<times> int" where
  "civil_from_days z0 =
     (let z = z0 + 719468;
          era = z div 146097;
          doe = z - era * 146097;
          yoe = (doe - doe div 1460 + doe div 36524 - doe div 146096) div 365;
          doy = doe - (365 * yoe + yoe div 4 - yoe div 100);
          mp = (5 * doy + 2) div 153;
          d = doy - (153 * mp + 2) div 5 + 1;
          m = (if mp < 10 then mp + 3 else mp - 9);
          y = yoe + era * 400 + (if m \<le> 2 then 1 else 0)
      in (y, m, d))"

text \<open>
  The parts of the layouts, each returning the milliseconds it stands for and the rest of
  the input: \<^verbatim>\<open>yyyy-MM-dd\<close>, \<^verbatim>\<open>HH:mm:ss\<close>, and \<^verbatim>\<open>XXX\<close> (\<^verbatim>\<open>Z\<close> or a signed
  \<^verbatim>\<open>hh:mm\<close>).
\<close>

definition parse_calendar_date :: "string \<Rightarrow> (int \<times> string) option" where
  "parse_calendar_date s =
     do {
       (y, r) \<leftarrow> numeric 1 4 s;
       r \<leftarrow> literal ''-'' r;
       (m, r) \<leftarrow> numeric 1 2 r;
       r \<leftarrow> literal ''-'' r;
       (d, r) \<leftarrow> numeric 1 2 r;
       if 0 < y \<and> 1 \<le> m \<and> m \<le> 12 \<and> 1 \<le> d \<and> d \<le> days_in_month y m
       then Some (days_from_civil y m d * 86400000, r) else None
     }"

definition parse_time_of_day :: "string \<Rightarrow> (int \<times> string) option" where
  "parse_time_of_day s =
     do {
       (h, r) \<leftarrow> numeric 1 2 s;
       r \<leftarrow> literal '':'' r;
       (mi, r) \<leftarrow> numeric 1 2 r;
       r \<leftarrow> literal '':'' r;
       (sec, r) \<leftarrow> numeric 1 2 r;
       if h \<le> 23 \<and> mi \<le> 59 \<and> sec \<le> 59
       then Some (h * 3600000 + mi * 60000 + sec * 1000, r) else None
     }"

definition parse_offset :: "string \<Rightarrow> (int \<times> string) option" where
  "parse_offset s =
     (case s of
        [] \<Rightarrow> None
      | c # r \<Rightarrow>
          if c = CHR ''Z'' then Some (0, r)
          else if c = CHR ''+'' \<or> c = CHR ''-'' then
            do {
              (h, r) \<leftarrow> numeric 2 2 r;
              r \<leftarrow> literal '':'' r;
              (mi, r) \<leftarrow> numeric 2 2 r;
              Some ((if c = CHR ''-'' then - 1 else 1) * (h * 3600000 + mi * 60000), r)
            }
          else None)"

text \<open>White space (of ASCII), which \<^verbatim>\<open>parse\<close> lets follow the date.\<close>

definition is_space :: "char \<Rightarrow> bool" where
  "is_space c = ((of_char c :: nat) = 32 \<or> (9 \<le> (of_char c :: nat) \<and> (of_char c :: nat) \<le> 13))"

definition parse_model :: "string \<Rightarrow> string \<Rightarrow> jsdate \<Rightarrow> jsdate" where
  "parse_model s layout reference =
     (if layout = date_layout then
        (case parse_calendar_date s of
           Some (t, r) \<Rightarrow> if list_all is_space r then Date t else Invalid_Date
         | None \<Rightarrow> Invalid_Date)
      else if layout = datetime_layout then
        (case do {
                (day, r) \<leftarrow> parse_calendar_date s;
                r \<leftarrow> literal ''T'' r;
                (tod, r) \<leftarrow> parse_time_of_day r;
                (off, r) \<leftarrow> parse_offset r;
                if list_all is_space r then Some (day + tod - off) else None
              } of
           Some t \<Rightarrow> Date t
         | None \<Rightarrow> Invalid_Date)
      else Invalid_Date)"

text \<open>
  Formatting in en-US: the weekday (\<^verbatim>\<open>eeee\<close>), the short time (\<^verbatim>\<open>p\<close>, as in
  \<^verbatim>\<open>2:30 PM\<close>) and the short date (\<^verbatim>\<open>P\<close>, as in \<^verbatim>\<open>03/10/2024\<close>). A number is
  printed in decimal and filled with zeros on the left up to the length of its pattern;
  the year of a date before year 1 is printed as its year BC.
\<close>

fun decimal :: "nat \<Rightarrow> string" where
  "decimal n =
     (if n < 10 then [char_of (48 + n)] else decimal (n div 10) @ [char_of (48 + n mod 10)])"

declare decimal.simps [simp del]

definition addLeadingZeros :: "int \<Rightarrow> nat \<Rightarrow> string" where
  "addLeadingZeros number targetLength =
     (let output = decimal (nat \<bar>number\<bar>)
      in (if number < 0 then ''-'' else []) @
         replicate (targetLength - length output) (CHR ''0'') @ output)"

definition weekday_name :: "int \<Rightarrow> string" where
  "weekday_name t =
     [''Sunday'', ''Monday'', ''Tuesday'', ''Wednesday'', ''Thursday'', ''Friday'',
      ''Saturday''] ! nat ((t div 86400000 + 4) mod 7)"

definition short_time :: "int \<Rightarrow> string" where
  "short_time t =
     (let minute_of_day = (t div 60000) mod 1440;
          h = minute_of_day div 60;
          h12 = (if h mod 12 = 0 then 12 else h mod 12)
      in addLeadingZeros h12 1 @ '':'' @ addLeadingZeros (minute_of_day mod 60) 2
         @ (if h < 12 then '' AM'' else '' PM''))"

definition short_date :: "int \<Rightarrow> string" where
  "short_date t =
     (let (signedYear, m, d) = civil_from_days (t div 86400000);
          y = (if 0 < signedYear then signedYear else 1 - signedYear)
      in addLeadingZeros m 2 @ ''/'' @ addLeadingZeros d 2 @ ''/'' @ addLeadingZeros y 4)"

definition formatRelative_model :: "jsdate \<Rightarrow> jsdate \<Rightarrow> string result" where
  "formatRelative_model d baseDate =
     (case (d, baseDate) of
        (Date t, Date t0) \<Rightarrow>
          (let diff = t div 86400000 - t0 div 86400000
           in Inr (if diff < - 6 then short_date t
                   else if diff < - 1 then ''last '' @ weekday_name t @ '' at '' @ short_time t
                   else if diff < 0 then ''yesterday at '' @ short_time t
                   else if diff < 1 then ''today at '' @ short_time t
                   else if diff < 2 then ''tomorrow at '' @ short_time t
                   else if diff < 7 then weekday_name t @ '' at '' @ short_time t
                   else short_date t))
      | _ \<Rightarrow> Inl (RangeError ''Invalid time value''))"

definition date_fns_model :: date_fns where
  "date_fns_model = \<lparr>parse = parse_model, formatRelative = formatRelative_model\<rparr>"



section \<open>The app shell's background (src/App.tsx)\<close>

text \<open>
  A \<^verbatim>\<open>string | null\<close> inside a template literal: \<^verbatim>\<open>null\<close> prints as \<^verbatim>\<open>null\<close>.
\<close>

fun template_string :: "string option \<Rightarrow> string" where
  "template_string None = ''null''"
| "template_string (Some s) = s"

text \<open>
  The \<^verbatim>\<open>imageStyle\<close> of \<^verbatim>\<open>App\<close>. The key \<^verbatim>\<open>backgroundImgUrl\<close> (src/settingNames is
  not among the sources) is a parameter. \<^verbatim>\<open>backgroundImg !== ""\<close> holds of \<^verbatim>\<open>null\<close>.
\<close>

definition imageStyle :: "string \<Rightarrow> (string \<rightharpoonup> string) \<Rightarrow> string" where
  "imageStyle backgroundImgUrl store =
     (let backgroundImg = store backgroundImgUrl in
      if backgroundImg \<noteq> Some []
      then ''url('' @ template_string backgroundImg @ '') no-repeat center center fixed''
      else [])"

section \<open>Concrete settings, responses and descriptors\<close>

definition example_keys :: localStorageKeys where
  "example_keys = \<lparr>todoistApiKey = ''todoistApiKey'', todoistFilter = ''todoistFilter''\<rparr>"

text \<open>A world with the given settings, whose remote end gives every request one answer.\<close>

definition example_world :: "(string \<times> string) list \<Rightarrow> response result \<Rightarrow> world" where
  "example_world settings answer =
     \<lparr>localStorage = map_of settings, remote = (\<lambda>_. answer), fetched = []\<rparr>"

text \<open>2024-03-10T09:00:00Z, and a clock that stands still there.\<close>

definition example_now :: int where
  "example_now = 1710061200000"

definition example_due :: "string \<Rightarrow> string option \<Rightarrow> TodoistDue" where
  "example_due d dt =
     \<lparr>due_string = ''Mar 10'', date = d, is_recurring = False, datetime = dt,
      timezone = None\<rparr>"

section \<open>Properties of the client\<close>

subsection \<open>The credential\<close>

lemma getApiKey_missing:
  "\<not> truthy (localStorage w (todoistApiKey keys)) \<Longrightarrow>
   getApiKey keys w = Inl (Error ''No Todoist API key.'')"
  by (cases "localStorage w (todoistApiKey keys)") (simp_all add: getApiKey_def)

lemma getApiKey_stored:
  "truthy (localStorage w (todoistApiKey keys)) \<Longrightarrow>
   getApiKey keys w = Inr (the (localStorage w (todoistApiKey keys)))"
  by (cases "localStorage w (todoistApiKey keys)") (simp_all add: getApiKey_def)

lemma getData_missing:
  "\<not> truthy (localStorage w (todoistApiKey keys)) \<Longrightarrow>
   getData keys w endpoint = (Inl (Error ''No Todoist API key.''), w)"
  by (simp add: getData_def getApiKey_missing)

lemma postData_missing:
  "\<not> truthy (localStorage w (todoistApiKey keys)) \<Longrightarrow>
   postData keys w endpoint content = (Inl (Error ''No Todoist API key.''), w)"
  by (simp add: postData_def getApiKey_missing)

text \<open>
  C1. In every state in which no API key is stored (the key is unset, or holds the empty
  string), each of \<^verbatim>\<open>getTasks\<close>, \<^verbatim>\<open>getProjects\<close> and \<^verbatim>\<open>closeTask\<close> fails with the error
  "No Todoist API key." and leaves the world as it was: no \<^verbatim>\<open>fetch\<close> is issued.
\<close>

theorem missing_credential_fails_before_fetch:
  assumes "\<not> truthy (localStorage w (todoistApiKey keys))"
  shows "getTasks keys w = (Inl (Error ''No Todoist API key.''), w)
       \<and> getProjects keys w = (Inl (Error ''No Todoist API key.''), w)
       \<and> closeTask keys w taskId = (Inl (Error ''No Todoist API key.''), w)
       \<and> fetched (snd (getTasks keys w)) = fetched w
       \<and> fetched (snd (getProjects keys w)) = fetched w
       \<and> fetched (snd (closeTask keys w taskId)) = fetched w"
  using assms
  by (simp add: getTasks_def getProjects_def closeTask_def getData_missing postData_missing)

theorem missing_credential_witness:
  "\<not> truthy (localStorage (example_world [] (Inl (TypeError ''Failed to fetch'')))
        (todoistApiKey example_keys))
   \<and> fst (getTasks example_keys (example_world [] (Inl (TypeError ''Failed to fetch''))))
       = Inl (Error ''No Todoist API key.'')
   \<and> fst (getProjects example_keys (example_world [] (Inl (TypeError ''Failed to fetch''))))
       = Inl (Error ''No Todoist API key.'')
   \<and> fst (closeTask example_keys (example_world [] (Inl (TypeError ''Failed to fetch''))) ''42'')
       = Inl (Error ''No Todoist API key.'')
   \<and> fetched (snd (getTasks example_keys
        (example_world [] (Inl (TypeError ''Failed to fetch''))))) = []
   \<and> fetched (snd (closeTask example_keys
        (example_world [] (Inl (TypeError ''Failed to fetch''))) ''42'')) = []"
  using missing_credential_fails_before_fetch
    [of "example_world [] (Inl (TypeError ''Failed to fetch''))" example_keys "''42''"]
  by (simp add: example_world_def example_keys_def)

subsection \<open>One request, and the answer's status\<close>

lemma getData_issues_one:
  assumes "truthy (localStorage w (todoistApiKey keys))"
  shows "\<exists>req. fetched (snd (getData keys w endpoint)) = fetched w @ [req]
      \<and> http_method req = GET \<and> url req = BASE_URL @ ''/'' @ endpoint @ ''?''
      \<and> fst (getData keys w endpoint) =
          (case remote w req of
             Inl e \<Rightarrow> Inl e
           | Inr r \<Rightarrow> if status r = 200 then json_body r
                      else if status r = 204 then Inr (JObject [])
                      else Inl (Error (statusText r)))"
  using assms
  by (auto simp add: getData_def getApiKey_stored fetch_def Let_def split: sum.splits)

lemma postData_issues_one:
  assumes "truthy (localStorage w (todoistApiKey keys))"
  shows "\<exists>req. fetched (snd (postData keys w endpoint content)) = fetched w @ [req]
      \<and> http_method req = POST \<and> url req = BASE_URL @ ''/'' @ endpoint @ ''?''
      \<and> body req = content
      \<and> fst (postData keys w endpoint content) =
          (case remote w req of
             Inl e \<Rightarrow> Inl e
           | Inr r \<Rightarrow> if status r = 200 \<or> status r = 204 then json_body r
                      else Inl (Error (statusText r)))"
  using assms
  by (auto simp add: postData_def getApiKey_stored fetch_def Let_def split: sum.splits)

text \<open>
  What \<^verbatim>\<open>getData\<close> and \<^verbatim>\<open>postData\<close> make of a 204: the first returns \<^verbatim>\<open>{}\<close>, the
  second whatever \<^verbatim>\<open>response.json()\<close> settles to.
\<close>

lemma getData_no_content:
  assumes "truthy (localStorage w (todoistApiKey keys))"
    and "remote w = (\<lambda>_. Inr r)" and "status r = 204"
  shows "fst (getData keys w endpoint) = Inr (JObject [])"
  using assms by (simp add: getData_def getApiKey_stored fetch_def)

lemma postData_no_content:
  assumes "truthy (localStorage w (todoistApiKey keys))"
    and "remote w = (\<lambda>_. Inr r)" and "status r = 204"
  shows "fst (postData keys w endpoint content) = json_body r"
  using assms by (simp add: postData_def getApiKey_stored fetch_def)

lemma run_issues_one:
  assumes "truthy (localStorage w (todoistApiKey keys))"
  shows "\<exists>req. fetched (snd (run keys w op)) = fetched w @ [req]
      \<and> (\<forall>r. remote w req = Inr r \<and> status r \<noteq> 200 \<and> status r \<noteq> 204 \<longrightarrow>
             fst (run keys w op) = Inl (Error (statusText r)))"
proof (cases op)
  case GetTasks
  obtain req where "fetched (snd (getTasks keys w)) = fetched w @ [req]"
    and "fst (getTasks keys w) =
          (case remote w req of
             Inl e \<Rightarrow> Inl e
           | Inr r \<Rightarrow> if status r = 200 then json_body r
                      else if status r = 204 then Inr (JObject [])
                      else Inl (Error (statusText r)))"
    using getData_issues_one [OF assms] unfolding getTasks_def Let_def by blast
  then show ?thesis using GetTasks by auto
next
  case GetProjects
  obtain req where "fetched (snd (getProjects keys w)) = fetched w @ [req]"
    and "fst (getProjects keys w) =
          (case remote w req of
             Inl e \<Rightarrow> Inl e
           | Inr r \<Rightarrow> if status r = 200 then json_body r
                      else if status r = 204 then Inr (JObject [])
                      else Inl (Error (statusText r)))"
    using getData_issues_one [OF assms] unfolding getProjects_def by blast
  then show ?thesis using GetProjects by auto
next
  case (CloseTask taskId)
  obtain req where "fetched (snd (closeTask keys w taskId)) = fetched w @ [req]"
    and "fst (closeTask keys w taskId) =
          (case remote w req of
             Inl e \<Rightarrow> Inl e
           | Inr r \<Rightarrow> if status r = 200 \<or> status r = 204 then json_body r
                      else Inl (Error (statusText r)))"
    using postData_issues_one [OF assms] unfolding closeTask_def by blast
  then show ?thesis using CloseTask by auto
qed

text \<open>
  C3. A 204 to \<^verbatim>\<open>closeTask\<close>: \<^verbatim>\<open>postData\<close> calls \<^verbatim>\<open>response.json()\<close> on it, and the
  empty body of a 204 is not JSON, so the call rejects with the \<^verbatim>\<open>SyntaxError\<close> instead
  of returning an empty object (which \<^verbatim>\<open>getData\<close> does, see \<open>getData_no_content\<close>).
\<close>

theorem closeTask_no_content_rejects:
  "fst (closeTask example_keys
          (example_world [(''todoistApiKey'', ''0123abcd'')]
             (Inr \<lparr>status = 204, statusText = ''No Content'',
                   json_body = Inl (SyntaxError ''Unexpected end of JSON input'')\<rparr>))
          ''42'')
   = Inl (SyntaxError ''Unexpected end of JSON input'')"
  by (simp add: closeTask_def postData_def getApiKey_def fetch_def example_world_def
      example_keys_def)

text \<open>
  C4. For every operation, when an API key is stored and the answer to the request it
  issues has a status other than 200 and 204, the operation fails with an \<^verbatim>\<open>Error\<close>
  whose message is the answer's status text, and that request is the only one issued.
\<close>

theorem other_status_fails_with_status_text:
  assumes "truthy (localStorage w (todoistApiKey keys))"
    and "remote w (last (fetched (snd (run keys w op)))) = Inr r"
    and "status r \<noteq> 200" and "status r \<noteq> 204"
  shows "fst (run keys w op) = Inl (Error (statusText r))
       \<and> length (fetched (snd (run keys w op))) = Suc (length (fetched w))"
proof -
  obtain req where f: "fetched (snd (run keys w op)) = fetched w @ [req]"
    and e: "\<forall>r. remote w req = Inr r \<and> status r \<noteq> 200 \<and> status r \<noteq> 204 \<longrightarrow>
             fst (run keys w op) = Inl (Error (statusText r))"
    using run_issues_one [OF assms(1)] by blast
  from f have "last (fetched (snd (run keys w op))) = req" by simp
  with f e assms show ?thesis by simp
qed

theorem other_status_witness:
  "truthy (localStorage
      (example_world [(''todoistApiKey'', ''0123abcd'')]
         (Inr \<lparr>status = 403, statusText = ''Forbidden'', json_body = Inr JNull\<rparr>))
      (todoistApiKey example_keys))
   \<and> status \<lparr>status = 403, statusText = ''Forbidden'', json_body = Inr JNull\<rparr> \<noteq> 200
   \<and> status \<lparr>status = 403, statusText = ''Forbidden'', json_body = Inr JNull\<rparr> \<noteq> 204
   \<and> fst (closeTask example_keys
        (example_world [(''todoistApiKey'', ''0123abcd'')]
           (Inr \<lparr>status = 403, statusText = ''Forbidden'', json_body = Inr JNull\<rparr>)) ''42'')
     = Inl (Error ''Forbidden'')
   \<and> length (fetched (snd (closeTask example_keys
        (example_world [(''todoistApiKey'', ''0123abcd'')]
           (Inr \<lparr>status = 403, statusText = ''Forbidden'', json_body = Inr JNull\<rparr>)) ''42'')))
     = Suc 0"
  using other_status_fails_with_status_text
    [of "example_world [(''todoistApiKey'', ''0123abcd'')]
           (Inr \<lparr>status = 403, statusText = ''Forbidden'', json_body = Inr JNull\<rparr>)"
        example_keys "CloseTask ''42''"
        "\<lparr>status = 403, statusText = ''Forbidden'', json_body = Inr JNull\<rparr>"]
  by (simp add: example_world_def example_keys_def)

subsection \<open>The request of getTasks\<close>

text \<open>
  C5. With an API key stored, \<^verbatim>\<open>getTasks\<close> issues one GET request for
  \<^verbatim>\<open>tasks?filter=F\<close>, where \<^verbatim>\<open>F\<close> is the stored filter when a non-empty one is stored,
  and "(today | overdue) & !assigned to: others" when the filter is unset or empty.
\<close>

theorem getTasks_filter:
  assumes "truthy (localStorage w (todoistApiKey keys))"
  shows "\<exists>req. fetched (snd (getTasks keys w)) = fetched w @ [req]
      \<and> http_method req = GET
      \<and> url req = BASE_URL @ ''/tasks?filter='' @
          (case localStorage w (todoistFilter keys) of
             None \<Rightarrow> ''(today | overdue) & !assigned to: others''
           | Some f \<Rightarrow> if f = [] then ''(today | overdue) & !assigned to: others'' else f)
          @ ''?''"
proof -
  obtain req where "fetched (snd (getTasks keys w)) = fetched w @ [req]"
    and "http_method req = GET"
    and "url req = BASE_URL @ ''/'' @ (''tasks?filter='' @
           or_else (localStorage w (todoistFilter keys)) default_filter) @ ''?''"
    using getData_issues_one [OF assms] unfolding getTasks_def Let_def by blast
  then show ?thesis
    by (cases "localStorage w (todoistFilter keys)") (auto simp: default_filter_def)
qed

theorem getTasks_filter_witness:
  "truthy (localStorage
      (example_world [(''todoistApiKey'', ''0123abcd''), (''todoistFilter'', ''p1'')]
         (Inr \<lparr>status = 200, statusText = ''OK'', json_body = Inr (JArray [])\<rparr>))
      (todoistApiKey example_keys))
   \<and> map (\<lambda>req. (http_method req, url req))
       (fetched (snd (getTasks example_keys
          (example_world [(''todoistApiKey'', ''0123abcd''), (''todoistFilter'', ''p1'')]
             (Inr \<lparr>status = 200, statusText = ''OK'', json_body = Inr (JArray [])\<rparr>)))))
     = [(GET, ''https://api.todoist.com/rest/v2/tasks?filter=p1?'')]"
  using getTasks_filter [of
      "example_world [(''todoistApiKey'', ''0123abcd''), (''todoistFilter'', ''p1'')]
         (Inr \<lparr>status = 200, statusText = ''OK'', json_body = Inr (JArray [])\<rparr>)"
      example_keys]
  by (auto simp: example_world_def example_keys_def BASE_URL_def)

text \<open>
  C5 as stated fails when the stored filter is the empty string: the request carries
  the default filter, not the stored one.
\<close>

theorem empty_filter_takes_default:
  "localStorage (example_world [(''todoistApiKey'', ''0123abcd''), (''todoistFilter'', [])]
       (Inr \<lparr>status = 200, statusText = ''OK'', json_body = Inr (JArray [])\<rparr>))
     (todoistFilter example_keys) = Some []
   \<and> map url (fetched (snd (getTasks example_keys
        (example_world [(''todoistApiKey'', ''0123abcd''), (''todoistFilter'', [])]
           (Inr \<lparr>status = 200, statusText = ''OK'', json_body = Inr (JArray [])\<rparr>)))))
     = [''https://api.todoist.com/rest/v2/tasks?filter=(today | overdue) & !assigned to: others?'']
   \<and> map url (fetched (snd (getTasks example_keys
        (example_world [(''todoistApiKey'', ''0123abcd''), (''todoistFilter'', [])]
           (Inr \<lparr>status = 200, statusText = ''OK'', json_body = Inr (JArray [])\<rparr>)))))
     \<noteq> [''https://api.todoist.com/rest/v2/tasks?filter='' @ [] @ ''?'']"
  by (simp add: getTasks_def getData_def getApiKey_def fetch_def example_world_def
      example_keys_def BASE_URL_def default_filter_def)

text \<open>
  In every world the filter in effect is either the stored non-empty string or, when
  the stored value is falsy, the default.
\<close>

lemma filter_in_effect:
  "localStorage w (todoistFilter keys)
       = Some (or_else (localStorage w (todoistFilter keys)) default_filter)
     \<and> or_else (localStorage w (todoistFilter keys)) default_filter \<noteq> []
   \<or> \<not> truthy (localStorage w (todoistFilter keys))
     \<and> or_else (localStorage w (todoistFilter keys)) default_filter
         = ''(today | overdue) & !assigned to: others''"
  by (cases "localStorage w (todoistFilter keys)") (auto simp: default_filter_def)

text \<open>
  C9. With an API key stored, the URL that \<^verbatim>\<open>getTasks\<close> fetches is built by
  interpolation, with nothing encoded and a "?" appended: for every non-empty stored
  filter string \<^verbatim>\<open>F\<close>, and for the default filter \<^verbatim>\<open>F\<close> when the filter is unset or
  empty, it is the literal "https://api.todoist.com/rest/v2/tasks?filter=" followed by
  \<^verbatim>\<open>F\<close> as it is and by "?".
\<close>

theorem getTasks_url_verbatim:
  assumes "truthy (localStorage w (todoistApiKey keys))"
    and "localStorage w (todoistFilter keys) = Some F \<and> F \<noteq> []
       \<or> \<not> truthy (localStorage w (todoistFilter keys))
         \<and> F = ''(today | overdue) & !assigned to: others''"
  shows "map url (fetched (snd (getTasks keys w)))
       = map url (fetched w) @ [''https://api.todoist.com/rest/v2/tasks?filter='' @ F @ ''?'']"
proof -
  have "or_else (localStorage w (todoistFilter keys)) default_filter = F"
    using assms(2)
    by (cases "localStorage w (todoistFilter keys)") (auto simp: default_filter_def)
  then show ?thesis
    using getData_issues_one [OF assms(1), of "''tasks?filter='' @ F"]
    by (auto simp: getTasks_def BASE_URL_def)
qed

theorem getTasks_url_verbatim_witness:
  "truthy (localStorage (example_world [(''todoistApiKey'', ''0123abcd'')]
       (Inr \<lparr>status = 200, statusText = ''OK'', json_body = Inr (JArray [])\<rparr>))
     (todoistApiKey example_keys))
   \<and> \<not> truthy (localStorage (example_world [(''todoistApiKey'', ''0123abcd'')]
       (Inr \<lparr>status = 200, statusText = ''OK'', json_body = Inr (JArray [])\<rparr>))
     (todoistFilter example_keys))
   \<and> map url (fetched (snd (getTasks example_keys
        (example_world [(''todoistApiKey'', ''0123abcd'')]
           (Inr \<lparr>status = 200, statusText = ''OK'', json_body = Inr (JArray [])\<rparr>)))))
     = [''https://api.todoist.com/rest/v2/tasks?filter=(today | overdue) & !assigned to: others?'']"
  using getTasks_url_verbatim [of
      "example_world [(''todoistApiKey'', ''0123abcd'')]
         (Inr \<lparr>status = 200, statusText = ''OK'', json_body = Inr (JArray [])\<rparr>)"
      example_keys "''(today | overdue) & !assigned to: others''"]
  by (simp add: example_world_def example_keys_def)

text \<open>
  C9 as stated fails when the stored filter string is empty: the URL fetched is not the
  prefix, the stored string and "?", it carries the default filter.
\<close>

theorem stored_empty_filter_not_interpolated:
  "localStorage (example_world [(''todoistFilter'', []), (''todoistApiKey'', ''89abcdef'')]
       (Inr \<lparr>status = 204, statusText = ''No Content'', json_body = Inl (SyntaxError [])\<rparr>))
     (todoistFilter example_keys) = Some []
   \<and> url (last (fetched (snd (getTasks example_keys
        (example_world [(''todoistFilter'', []), (''todoistApiKey'', ''89abcdef'')]
           (Inr \<lparr>status = 204, statusText = ''No Content'',
                 json_body = Inl (SyntaxError [])\<rparr>))))))
     \<noteq> ''https://api.todoist.com/rest/v2/tasks?filter='' @ [] @ ''?''
   \<and> url (last (fetched (snd (getTasks example_keys
        (example_world [(''todoistFilter'', []), (''todoistApiKey'', ''89abcdef'')]
           (Inr \<lparr>status = 204, statusText = ''No Content'',
                 json_body = Inl (SyntaxError [])\<rparr>))))))
     = ''https://api.todoist.com/rest/v2/tasks?filter=(today | overdue) & !assigned to: others?''"
  by (simp add: getTasks_def getData_def getApiKey_def fetch_def example_world_def
      example_keys_def BASE_URL_def default_filter_def)

section \<open>Properties of the app shell's background\<close>

text \<open>
  C10. When no background-image URL is stored, the computed style is
  "url(null) no-repeat center center fixed"; the style is empty exactly when the stored
  value is the empty string.
\<close>

theorem unset_background_is_url_null:
  "(store backgroundImgUrl = None \<longrightarrow>
      imageStyle backgroundImgUrl store = ''url(null) no-repeat center center fixed'')
   \<and> (imageStyle backgroundImgUrl store = [] \<longleftrightarrow> store backgroundImgUrl = Some [])"
  by (simp add: imageStyle_def Let_def)

theorem unset_background_witness:
  "Map.empty ''backgroundImgUrl'' = (None :: string option)
   \<and> imageStyle ''backgroundImgUrl'' Map.empty = ''url(null) no-repeat center center fixed''
   \<and> imageStyle ''backgroundImgUrl'' [''backgroundImgUrl'' \<mapsto> []] = []"
  using unset_background_is_url_null [of Map.empty "''backgroundImgUrl''"]
    unset_background_is_url_null [of "[''backgroundImgUrl'' \<mapsto> []]" "''backgroundImgUrl''"]
  by simp

section \<open>Properties of the date formatter\<close>

subsection \<open>The first piece of a split\<close>

lemma find_map_comp: "find P (map f xs) = map_option f (find (P \<circ> f) xs)"
  by (induction xs) simp_all

lemma first_occurrence_Nil: "sep \<noteq> [] \<Longrightarrow> first_occurrence sep [] = None"
  by (simp add: first_occurrence_def)

lemma first_occurrence_here:
  "prefix sep (c # cs) \<Longrightarrow> first_occurrence sep (c # cs) = Some 0"
  by (simp add: first_occurrence_def upt_conv_Cons del: upt_Suc)

lemma first_occurrence_later:
  assumes "\<not> prefix sep (c # cs)"
  shows "first_occurrence sep (c # cs) = map_option Suc (first_occurrence sep cs)"
proof -
  have "[0..<Suc (Suc (length cs))] = 0 # [Suc 0..<Suc (Suc (length cs))]"
    by (rule upt_conv_Cons) simp
  also have "\<dots> = 0 # map Suc [0..<Suc (length cs)]"
    by (simp only: map_Suc_upt)
  finally show ?thesis
    using assms by (simp add: first_occurrence_def find_map_comp comp_def del: upt_Suc)
qed

lemma remove_from_first_Cons:
  "remove_from_first sep (c # cs) =
     (if prefix sep (c # cs) then [] else c # remove_from_first sep cs)"
  by (simp add: remove_from_first_def first_occurrence_here first_occurrence_later
      split: option.splits)

lemma js_split_from_not_Nil: "js_split_from sep piece s \<noteq> []"
  by (induction sep piece s rule: js_split_from.induct) simp_all

lemma hd_js_split_from:
  "sep \<noteq> [] \<Longrightarrow> hd (js_split_from sep piece s) = piece @ remove_from_first sep s"
proof (induction s arbitrary: piece)
  case Nil
  then show ?case by (simp add: remove_from_first_def first_occurrence_Nil)
next
  case (Cons c cs)
  then show ?case by (simp add: remove_from_first_Cons)
qed

text \<open>
  The element \<^verbatim>\<open>[0]\<close> of a split by a non-empty separator exists, and is the string up
  to the first occurrence of the separator.
\<close>

lemma js_split_not_Nil: "sep \<noteq> [] \<Longrightarrow> js_split sep s \<noteq> []"
  by (simp add: js_split_def js_split_from_not_Nil)

lemma hd_js_split: "sep \<noteq> [] \<Longrightarrow> hd (js_split sep s) = remove_from_first sep s"
  by (simp add: js_split_def hd_js_split_from)

lemma remove_from_first_prefix: "prefix (remove_from_first sep s) s"
  by (simp add: remove_from_first_def take_is_prefix split: option.splits)

lemma remove_from_first_no_occurrence:
  assumes "sep \<noteq> []"
  shows "\<not> sublist sep (remove_from_first sep s)"
proof (induction s)
  case Nil
  then show ?case using assms by (simp add: remove_from_first_def first_occurrence_Nil)
next
  case (Cons c cs)
  show ?case
  proof (cases "prefix sep (c # cs)")
    case True
    then show ?thesis using assms by (simp add: remove_from_first_Cons)
  next
    case False
    have "prefix (c # remove_from_first sep cs) (c # cs)"
      by (simp add: remove_from_first_prefix)
    with False have "\<not> prefix sep (c # remove_from_first sep cs)"
      using prefix_order.trans by blast
    with Cons False show ?thesis
      by (simp add: remove_from_first_Cons sublist_Cons_right)
  qed
qed

subsection \<open>The three branches of relativeDateTime\<close>

lemma relativeDateTime_datetime:
  assumes "datetime due = Some s" and "s \<noteq> []"
  shows "relativeDateTime lib c due =
     (formatRelative lib (parse lib s datetime_layout (Date (shd c))) (Date (shd (stl c))),
      stl (stl c))"
  using assms by (simp add: relativeDateTime_def new_Date_def)

lemma relativeDateTime_date:
  assumes "\<not> truthy (datetime due)" and "date due \<noteq> []"
  shows "relativeDateTime lib c due =
     (case formatRelative lib (parse lib (date due) date_layout (Date (shd c)))
             (Date (shd (stl c))) of
        Inl e \<Rightarrow> Inl e
      | Inr r \<Rightarrow> Inr (remove_from_first '' at'' r),
      stl (stl c))"
  using assms
  by (cases "datetime due")
    (simp_all add: relativeDateTime_def new_Date_def hd_js_split split: sum.splits)

lemma relativeDateTime_unset:
  assumes "\<not> truthy (datetime due)" and "date due = []"
  shows "relativeDateTime lib c due = (Inr [], c)"
  using assms by (cases "datetime due") (simp_all add: relativeDateTime_def)

subsection \<open>The reference model on the descriptors used below\<close>

lemma take_digits_Nil: "take_digits n [] = ([], [])"
  by (cases n) simp_all

lemma parse_model_empty: "parse_model [] layout reference = Invalid_Date"
  by (simp add: parse_model_def parse_calendar_date_def numeric_def take_digits_Nil)

lemma formatRelative_model_invalid:
  "formatRelative_model Invalid_Date baseDate = Inl (RangeError ''Invalid time value'')"
  by (simp add: formatRelative_model_def)

lemma parse_date_2024_03_10:
  "parse_model ''2024-03-10'' date_layout (Date example_now) = Date 1710028800000"
  by code_simp

lemma parse_datetime_2024_03_10:
  "parse_model ''2024-03-10T14:30:00+00:00'' datetime_layout (Date example_now)
     = Date 1710081000000"
  by code_simp

lemma parse_date_malformed:
  "parse_model ''next week'' date_layout (Date example_now) = Invalid_Date"
  by code_simp

lemma parse_datetime_malformed:
  "parse_model ''soon'' datetime_layout (Date example_now) = Invalid_Date"
  by code_simp

lemma format_midnight_today:
  "formatRelative_model (Date 1710028800000) (Date example_now) = Inr ''today at 12:00 AM''"
  by code_simp

lemma format_afternoon_today:
  "formatRelative_model (Date 1710081000000) (Date example_now) = Inr ''today at 2:30 PM''"
  by code_simp

lemma remove_time_of_today:
  "remove_from_first '' at'' ''today at 12:00 AM'' = ''today''"
  by code_simp

subsection \<open>The claims\<close>

text \<open>
  C2. For every descriptor whose \<^verbatim>\<open>datetime\<close> is absent or empty and whose \<^verbatim>\<open>date\<close> is
  empty, \<^verbatim>\<open>relativeDateTime\<close> returns the empty string, raises nothing and does not
  read the clock.
\<close>

theorem unset_dates_give_empty_string:
  assumes "\<not> truthy (datetime due)" and "date due = []"
  shows "relativeDateTime lib c due = (Inr [], c)"
  using assms by (rule relativeDateTime_unset)

theorem unset_dates_witness:
  "\<not> truthy (datetime (example_due [] None)) \<and> date (example_due [] None) = []
   \<and> fst (relativeDateTime date_fns_model (sconst example_now) (example_due [] None)) = Inr []
   \<and> fst (relativeDateTime date_fns_model (sconst example_now) (example_due [] (Some [])))
       = Inr []"
  using unset_dates_give_empty_string [of "example_due [] None" date_fns_model
      "sconst example_now"]
    unset_dates_give_empty_string [of "example_due [] (Some [])" date_fns_model
      "sconst example_now"]
  by (simp add: example_due_def)

text \<open>
  C2 as stated fails on a descriptor whose fields are non-empty and malformed: neither
  parses, and the Invalid Date of the first goes to \<^verbatim>\<open>formatRelative\<close>, whose
  \<^verbatim>\<open>RangeError\<close> reaches the caller.
\<close>

theorem malformed_dates_raise:
  "parse date_fns_model ''soon'' datetime_layout (Date example_now) = Invalid_Date
   \<and> parse date_fns_model ''next week'' date_layout (Date example_now) = Invalid_Date
   \<and> fst (relativeDateTime date_fns_model (sconst example_now)
          (example_due ''next week'' (Some ''soon'')))
      = Inl (RangeError ''Invalid time value'')
   \<and> fst (relativeDateTime date_fns_model (sconst example_now)
          (example_due ''next week'' (Some ''soon'')))
      \<noteq> Inr []"
  by (simp add: relativeDateTime_datetime example_due_def date_fns_model_def
      parse_datetime_malformed parse_date_malformed formatRelative_model_invalid)

text \<open>
  C6. For every descriptor whose \<^verbatim>\<open>datetime\<close> is present (and not empty) and parses
  under the date-time layout, \<^verbatim>\<open>relativeDateTime\<close> returns what \<^verbatim>\<open>formatRelative\<close>
  makes of that date-time and the current moment, whatever the \<^verbatim>\<open>date\<close> field holds.
\<close>

theorem datetime_takes_precedence:
  assumes "datetime due = Some s" and "s \<noteq> []"
    and "parse lib s datetime_layout (Date (shd c)) = Date t"
  shows "fst (relativeDateTime lib c due) = formatRelative lib (Date t) (Date (shd (stl c)))
       \<and> fst (relativeDateTime lib c (due\<lparr>date := d\<rparr>)) = fst (relativeDateTime lib c due)"
  using assms by (simp add: relativeDateTime_datetime)

theorem datetime_takes_precedence_witness:
  "datetime (example_due ''2024-03-10'' (Some ''2024-03-10T14:30:00+00:00''))
     = Some ''2024-03-10T14:30:00+00:00''
   \<and> parse date_fns_model ''2024-03-10T14:30:00+00:00'' datetime_layout
       (Date (shd (sconst example_now))) = Date 1710081000000
   \<and> fst (relativeDateTime date_fns_model (sconst example_now)
       (example_due ''2024-03-10'' (Some ''2024-03-10T14:30:00+00:00'')))
     = Inr ''today at 2:30 PM''"
  using datetime_takes_precedence
    [of "example_due ''2024-03-10'' (Some ''2024-03-10T14:30:00+00:00'')"
      "''2024-03-10T14:30:00+00:00''" date_fns_model "sconst example_now" 1710081000000]
  by (simp add: example_due_def date_fns_model_def parse_datetime_2024_03_10
      format_afternoon_today)

text \<open>
  C7. For every descriptor whose \<^verbatim>\<open>datetime\<close> is absent or empty and whose \<^verbatim>\<open>date\<close>
  parses under the date layout, \<^verbatim>\<open>relativeDateTime\<close> returns the relative formatting of
  that date with everything from the first occurrence of " at" onward removed; " at" does
  not occur in the result.
\<close>

theorem date_only_strips_time:
  assumes "\<not> truthy (datetime due)" and "date due \<noteq> []"
    and "parse lib (date due) date_layout (Date (shd c)) = Date t"
    and "formatRelative lib (Date t) (Date (shd (stl c))) = Inr r"
  shows "fst (relativeDateTime lib c due) = Inr (remove_from_first '' at'' r)
       \<and> \<not> sublist '' at'' (remove_from_first '' at'' r)"
  using assms by (simp add: relativeDateTime_date remove_from_first_no_occurrence)

theorem date_only_strips_time_witness:
  "\<not> truthy (datetime (example_due ''2024-03-10'' None))
   \<and> parse date_fns_model (date (example_due ''2024-03-10'' None)) date_layout
       (Date (shd (sconst example_now))) = Date 1710028800000
   \<and> formatRelative date_fns_model (Date 1710028800000) (Date (shd (stl (sconst example_now))))
       = Inr ''today at 12:00 AM''
   \<and> fst (relativeDateTime date_fns_model (sconst example_now) (example_due ''2024-03-10'' None))
       = Inr ''today''"
  using date_only_strips_time [of "example_due ''2024-03-10'' None" date_fns_model
      "sconst example_now" 1710028800000 "''today at 12:00 AM''"]
  by (simp add: example_due_def date_fns_model_def parse_date_2024_03_10
      format_midnight_today remove_time_of_today)

text \<open>
  C7 as stated fails on a descriptor whose \<^verbatim>\<open>datetime\<close> is present but does not parse:
  the \<^verbatim>\<open>date\<close>, which parses, is never looked at.
\<close>

theorem malformed_datetime_hides_date:
  "parse date_fns_model ''soon'' datetime_layout (Date example_now) = Invalid_Date
   \<and> parse date_fns_model ''2024-03-10'' date_layout (Date example_now) = Date 1710028800000
   \<and> fst (relativeDateTime date_fns_model (sconst example_now)
         (example_due ''2024-03-10'' (Some ''soon'')))
      = Inl (RangeError ''Invalid time value'')"
  by (simp add: relativeDateTime_datetime example_due_def date_fns_model_def
      parse_datetime_malformed parse_date_2024_03_10 formatRelative_model_invalid)











end
